theory Spec2Isabelle
  imports Complex_Main
begin

section \<open>Pre-delinquency intervention engine: scoring core of app.py\<close>

text \<open>
  Python floats are modelled as exact reals and Python ints as \<open>int\<close>. The data frame
  rows of the source become records; the fixed string keys of its dictionaries become
  datatypes.
\<close>

subsection \<open>Constants\<close>

datatype feature =
    F_salary_delay_days
  | F_savings_drop_pct
  | F_discretionary_spend_change_pct
  | F_utility_payment_delay_days
  | F_lending_app_upi_txn_count
  | F_atm_withdrawal_spike_pct
  | F_failed_autodebit

definition FEATURES :: "feature list" where
  "FEATURES =
     [F_salary_delay_days, F_savings_drop_pct, F_discretionary_spend_change_pct,
      F_utility_payment_delay_days, F_lending_app_upi_txn_count,
      F_atm_withdrawal_spike_pct, F_failed_autodebit]"

fun WEIGHTS :: "feature \<Rightarrow> real" where
  "WEIGHTS F_salary_delay_days = 0.18"
| "WEIGHTS F_savings_drop_pct = 0.17"
| "WEIGHTS F_discretionary_spend_change_pct = 0.14"
| "WEIGHTS F_utility_payment_delay_days = 0.14"
| "WEIGHTS F_lending_app_upi_txn_count = 0.12"
| "WEIGHTS F_atm_withdrawal_spike_pct = 0.10"
| "WEIGHTS F_failed_autodebit = 0.15"

fun FEATURE_LABELS :: "feature \<Rightarrow> string" where
  "FEATURE_LABELS F_salary_delay_days = ''Salary Delay Days''"
| "FEATURE_LABELS F_savings_drop_pct = ''Savings Drop %''"
| "FEATURE_LABELS F_discretionary_spend_change_pct = ''Discretionary Spend Change %''"
| "FEATURE_LABELS F_utility_payment_delay_days = ''Utility Payment Delay Days''"
| "FEATURE_LABELS F_lending_app_upi_txn_count = ''Lending-App UPI Txn Count''"
| "FEATURE_LABELS F_atm_withdrawal_spike_pct = ''ATM Withdrawal Spike %''"
| "FEATURE_LABELS F_failed_autodebit = ''Failed Autodebit''"

subsection \<open>Risk-scoring helpers\<close>

datatype tier_name = Low | Medium | High

text \<open>The order Low < Medium < High on tiers, as a rank.\<close>

fun tier_rank :: "tier_name \<Rightarrow> nat" where
  "tier_rank Low = 0"
| "tier_rank Medium = 1"
| "tier_rank High = 2"

text \<open>\<open>_tier\<close> of the source.\<close>

definition tier :: "real \<Rightarrow> tier_name" where
  "tier score =
     (if score < 0.4 then Low
      else if score \<le> 0.7 then Medium
      else High)"

text \<open>\<open>np.clip(a, a_min, a_max)\<close>: the minimum of \<open>a_max\<close> and the maximum of \<open>a\<close> and \<open>a_min\<close>.\<close>

definition np_clip :: "real \<Rightarrow> real \<Rightarrow> real \<Rightarrow> real" where
  "np_clip a a_min a_max = min a_max (max a a_min)"

text \<open>One row of the data frame that \<open>generate_data\<close> builds, before scoring.\<close>

record signal_record =
  customer_id :: string
  week :: int
  salary_delay_days :: int
  savings_drop_pct :: real
  discretionary_spend_change_pct :: real
  utility_payment_delay_days :: int
  lending_app_upi_txn_count :: int
  atm_withdrawal_spike_pct :: real
  failed_autodebit :: int

text \<open>\<open>_risk_components\<close> on one row: the column of each feature.\<close>

fun risk_components :: "signal_record \<Rightarrow> feature \<Rightarrow> real" where
  "risk_components df F_salary_delay_days =
     np_clip ((real_of_int (salary_delay_days df) - 3) / 4) 0 1 * WEIGHTS F_salary_delay_days"
| "risk_components df F_savings_drop_pct =
     np_clip ((savings_drop_pct df - 20) / 20) 0 1 * WEIGHTS F_savings_drop_pct"
| "risk_components df F_discretionary_spend_change_pct =
     np_clip ((- 40 - discretionary_spend_change_pct df) / 30) 0 1
       * WEIGHTS F_discretionary_spend_change_pct"
| "risk_components df F_utility_payment_delay_days =
     np_clip ((real_of_int (utility_payment_delay_days df) - 5) / 5) 0 1
       * WEIGHTS F_utility_payment_delay_days"
| "risk_components df F_lending_app_upi_txn_count =
     np_clip ((real_of_int (lending_app_upi_txn_count df) - 3) / 5) 0 1
       * WEIGHTS F_lending_app_upi_txn_count"
| "risk_components df F_atm_withdrawal_spike_pct =
     np_clip ((atm_withdrawal_spike_pct df - 30) / 30) 0 1 * WEIGHTS F_atm_withdrawal_spike_pct"
| "risk_components df F_failed_autodebit =
     real_of_int (failed_autodebit df) * WEIGHTS F_failed_autodebit"

text \<open>
  A scored row: the signal record extended by the columns \<open>risk_score\<close>, \<open>risk_tier\<close>
  and \<open>contrib_<feature>\<close> that \<open>generate_data\<close> adds.
\<close>

record scored_row = signal_record +
  risk_score :: real
  risk_tier :: tier_name
  contrib :: "feature \<Rightarrow> real"

text \<open>\<open>comp.sum(axis=1)\<close>: the sum of the seven columns of a row.\<close>

definition comp_sum :: "signal_record \<Rightarrow> real" where
  "comp_sum df = sum_list (map (risk_components df) FEATURES)"

datatype error = InputError

text \<open>
  The scoring tail of \<open>generate_data\<close> on one row. The source validates nothing and
  raises nowhere on this path, so the result is always \<open>Inr\<close>.
\<close>

definition score_record :: "signal_record \<Rightarrow> error + scored_row" where
  "score_record df =
     (let comp = risk_components df;
          score = np_clip (comp_sum df) 0 1
      in Inr (signal_record.extend df
                (scored_row.fields score (tier score) comp)))"

subsection \<open>Customer view: projected post-intervention score\<close>

definition reduction_factor :: "tier_name \<Rightarrow> real" where
  "reduction_factor t =
     (if t = High then 0.40
      else if t = Medium then 0.20
      else 0.05)"

definition adjusted_score :: "'a scored_row_scheme \<Rightarrow> real" where
  "adjusted_score row = risk_score row * (1 - reduction_factor (risk_tier row))"

definition adjusted_tier :: "'a scored_row_scheme \<Rightarrow> tier_name" where
  "adjusted_tier row = tier (adjusted_score row)"

subsection \<open>Normalization table of the specification\<close>

text \<open>
  The linear normalization rules as section 4.1 of the specification lists them, before
  clipping to [0, 1]; written from the specification's table, to be compared with
  \<open>risk_components\<close>.
\<close>

fun spec_linear :: "feature \<Rightarrow> signal_record \<Rightarrow> real" where
  "spec_linear F_salary_delay_days r = (real_of_int (salary_delay_days r) - 3) / 4"
| "spec_linear F_savings_drop_pct r = (savings_drop_pct r - 20) / 20"
| "spec_linear F_discretionary_spend_change_pct r = (- 40 - discretionary_spend_change_pct r) / 30"
| "spec_linear F_utility_payment_delay_days r = (real_of_int (utility_payment_delay_days r) - 5) / 5"
| "spec_linear F_lending_app_upi_txn_count r = (real_of_int (lending_app_upi_txn_count r) - 3) / 5"
| "spec_linear F_atm_withdrawal_spike_pct r = (atm_withdrawal_spike_pct r - 30) / 30"
| "spec_linear F_failed_autodebit r = real_of_int (failed_autodebit r)"

subsection \<open>Concrete inputs\<close>

text \<open>
  A record with every signal at the top of its clip range, and a record outside the
  documented domain (negative day counts).
\<close>

definition stressed_record :: signal_record where
  "stressed_record =
     \<lparr> customer_id = ''C001'', week = 12, salary_delay_days = 7, savings_drop_pct = 40,
       discretionary_spend_change_pct = - 70, utility_payment_delay_days = 10,
       lending_app_upi_txn_count = 8, atm_withdrawal_spike_pct = 60, failed_autodebit = 1 \<rparr>"

definition negative_delay_record :: signal_record where
  "negative_delay_record =
     \<lparr> customer_id = ''C002'', week = 1, salary_delay_days = - 1, savings_drop_pct = 0,
       discretionary_spend_change_pct = 0, utility_payment_delay_days = - 2,
       lending_app_upi_txn_count = 0, atm_withdrawal_spike_pct = 0, failed_autodebit = 0 \<rparr>"

subsection \<open>Impact simulation: the computation of \<open>render_impact_tab\<close>\<close>

text \<open>
  The tier counts and the values read from the sidebar widgets (rates already divided
  by 100) are the parameters; every local variable of the source is a function of them.
\<close>

record sim_params =
  high_count :: int
  medium_count :: int
  avg_exposure :: int
  baseline_high :: real
  baseline_medium :: real
  collection_cost_pct :: real
  eff_high :: real
  eff_medium :: real
  lgd_pct :: real
  recovery_rate :: real
  recovery_uplift :: real
  cost_per_high :: int
  cost_per_medium :: int
  outreach_capacity :: int

definition eligible_cases :: "sim_params \<Rightarrow> int" where
  "eligible_cases p = high_count p + medium_count p"

definition contacted_high :: "sim_params \<Rightarrow> int" where
  "contacted_high p = min (high_count p) (outreach_capacity p)"

definition remaining_cap :: "sim_params \<Rightarrow> int" where
  "remaining_cap p = outreach_capacity p - contacted_high p"

definition contacted_medium :: "sim_params \<Rightarrow> int" where
  "contacted_medium p = min (medium_count p) (max 0 (remaining_cap p))"

definition non_contacted_high :: "sim_params \<Rightarrow> int" where
  "non_contacted_high p = high_count p - contacted_high p"

definition non_contacted_medium :: "sim_params \<Rightarrow> int" where
  "non_contacted_medium p = medium_count p - contacted_medium p"

definition overflow :: "sim_params \<Rightarrow> int" where
  "overflow p = max 0 (eligible_cases p - outreach_capacity p)"

definition defaults_wo :: "sim_params \<Rightarrow> real" where
  "defaults_wo p =
     (real_of_int (high_count p) * baseline_high p)
       + (real_of_int (medium_count p) * baseline_medium p)"

definition ead_wo :: "sim_params \<Rightarrow> real" where
  "ead_wo p = defaults_wo p * real_of_int (avg_exposure p)"

definition credit_loss_wo :: "sim_params \<Rightarrow> real" where
  "credit_loss_wo p = ead_wo p * lgd_pct p"

definition recover_wo :: "sim_params \<Rightarrow> real" where
  "recover_wo p = ead_wo p * recovery_rate p"

definition collection_cost_wo :: "sim_params \<Rightarrow> real" where
  "collection_cost_wo p = recover_wo p * collection_cost_pct p"

definition reduced_high :: "sim_params \<Rightarrow> real" where
  "reduced_high p = baseline_high p * (1 - eff_high p)"

definition reduced_medium :: "sim_params \<Rightarrow> real" where
  "reduced_medium p = baseline_medium p * (1 - eff_medium p)"

definition recovery_contacted :: "sim_params \<Rightarrow> real" where
  "recovery_contacted p = min 1 (recovery_rate p + recovery_uplift p)"

definition contacted_defaults :: "sim_params \<Rightarrow> real" where
  "contacted_defaults p =
     (real_of_int (contacted_high p) * reduced_high p)
       + (real_of_int (contacted_medium p) * reduced_medium p)"

definition non_contacted_defaults :: "sim_params \<Rightarrow> real" where
  "non_contacted_defaults p =
     (real_of_int (non_contacted_high p) * baseline_high p)
       + (real_of_int (non_contacted_medium p) * baseline_medium p)"

definition defaults_w :: "sim_params \<Rightarrow> real" where
  "defaults_w p = contacted_defaults p + non_contacted_defaults p"

definition contacted_ead :: "sim_params \<Rightarrow> real" where
  "contacted_ead p = contacted_defaults p * real_of_int (avg_exposure p)"

definition non_contacted_ead :: "sim_params \<Rightarrow> real" where
  "non_contacted_ead p = non_contacted_defaults p * real_of_int (avg_exposure p)"

definition ead_w :: "sim_params \<Rightarrow> real" where
  "ead_w p = contacted_ead p + non_contacted_ead p"

definition credit_loss_w :: "sim_params \<Rightarrow> real" where
  "credit_loss_w p = ead_w p * lgd_pct p"

definition recover_w :: "sim_params \<Rightarrow> real" where
  "recover_w p =
     (contacted_ead p * recovery_contacted p) + (non_contacted_ead p * recovery_rate p)"

definition collection_cost_w :: "sim_params \<Rightarrow> real" where
  "collection_cost_w p = recover_w p * collection_cost_pct p"

definition outreach_cost :: "sim_params \<Rightarrow> int" where
  "outreach_cost p =
     (contacted_high p * cost_per_high p) + (contacted_medium p * cost_per_medium p)"

definition default_reduction_pct :: "sim_params \<Rightarrow> real" where
  "default_reduction_pct p =
     (if defaults_wo p > 0 then (defaults_wo p - defaults_w p) / defaults_wo p * 100 else 0)"

definition credit_loss_saved :: "sim_params \<Rightarrow> real" where
  "credit_loss_saved p = credit_loss_wo p - credit_loss_w p"

definition collection_saved :: "sim_params \<Rightarrow> real" where
  "collection_saved p = collection_cost_wo p - collection_cost_w p"

definition net_savings :: "sim_params \<Rightarrow> real" where
  "net_savings p =
     (credit_loss_wo p + collection_cost_wo p) - (credit_loss_w p + collection_cost_w p)
       - real_of_int (outreach_cost p)"

text \<open>The scenario of the specification's section 8, and one with more cases than capacity.\<close>

definition spec_scenario :: sim_params where
  "spec_scenario =
     \<lparr> high_count = 30, medium_count = 50, avg_exposure = 50000,
       baseline_high = 0.15, baseline_medium = 0.07, collection_cost_pct = 0.18,
       eff_high = 0.40, eff_medium = 0.20, lgd_pct = 0.55, recovery_rate = 0.60,
       recovery_uplift = 0.10, cost_per_high = 60, cost_per_medium = 10,
       outreach_capacity = 120 \<rparr>"

definition overflow_scenario :: sim_params where
  "overflow_scenario = spec_scenario \<lparr> high_count := 100, medium_count := 50 \<rparr>"

subsection \<open>Analytical helpers\<close>

text \<open>
  \<open>sorted(xs, key=key, reverse=True)\<close>: Python's sort is stable, also when reversed, so
  the result is the stable sort by descending key. \<open>sort_key\<close> is a stable insertion
  sort; sorting by the negated key gives the descending order.
\<close>

definition py_sorted_desc :: "('a \<Rightarrow> real) \<Rightarrow> 'a list \<Rightarrow> 'a list" where
  "py_sorted_desc key xs = sort_key (\<lambda>x. - key x) xs"

text \<open>
  The slice \<open>xs[:n]\<close>: the first \<open>n\<close> elements, and for a negative \<open>n\<close> all but the
  last \<open>-n\<close>.
\<close>

definition py_slice_to :: "int \<Rightarrow> 'a list \<Rightarrow> 'a list" where
  "py_slice_to n xs =
     (if 0 \<le> n then take (nat n) xs else take (length xs - nat (- n)) xs)"

definition top_drivers :: "'a scored_row_scheme \<Rightarrow> int \<Rightarrow> (feature \<times> real) list" where
  "top_drivers row n =
     (let pairs = map (\<lambda>feature. (feature, contrib row feature)) FEATURES;
          pairs = py_sorted_desc snd pairs
      in py_slice_to n pairs)"

text \<open>The position of a feature in \<open>FEATURES\<close>, and the order of two ranked pairs.\<close>

fun decl_index :: "feature \<Rightarrow> nat" where
  "decl_index F_salary_delay_days = 0"
| "decl_index F_savings_drop_pct = 1"
| "decl_index F_discretionary_spend_change_pct = 2"
| "decl_index F_utility_payment_delay_days = 3"
| "decl_index F_lending_app_upi_txn_count = 4"
| "decl_index F_atm_withdrawal_spike_pct = 5"
| "decl_index F_failed_autodebit = 6"

definition ranked_before :: "feature \<times> real \<Rightarrow> feature \<times> real \<Rightarrow> bool" where
  "ranked_before p q =
     (snd p > snd q \<or> (snd p = snd q \<and> decl_index (fst p) < decl_index (fst q)))"

text \<open>The row that scoring \<open>stressed_record\<close> gives.\<close>

definition stressed_row :: scored_row where
  "stressed_row =
     signal_record.extend stressed_record
       (scored_row.fields 1 High (risk_components stressed_record))"

text \<open>\<open>sep.join(xs)\<close> on strings.\<close>

fun join_str :: "string \<Rightarrow> string list \<Rightarrow> string" where
  "join_str sep [] = []"
| "join_str sep [x] = x"
| "join_str sep (x # y # ys) = x @ sep @ join_str sep (y # ys)"

text \<open>The list comprehension \<open>[FEATURE_LABELS[d[0]] for d in drivers]\<close> of the callers.\<close>

definition driver_labels_of :: "(feature \<times> real) list \<Rightarrow> string list" where
  "driver_labels_of drivers = map (\<lambda>d. FEATURE_LABELS (fst d)) drivers"

text \<open>\<open>intervention_engine\<close>: the result is (action, message, rationale).\<close>

definition intervention_engine ::
  "'a scored_row_scheme \<Rightarrow> string list \<Rightarrow> string \<times> string \<times> string" where
  "intervention_engine row driver_labels =
     (let (action, message) =
            (if salary_delay_days row > 3 \<and> savings_drop_pct row > 20 then
               (''Offer EMI date shift / short grace period'',
                ''We noticed temporary cashflow pressure. We can shift your EMI date or provide a short grace period to avoid penalties.'')
             else if failed_autodebit row = 1 then
               (''Immediate proactive outreach + payment retry scheduling'',
                ''Your last autodebit did not go through. We can help schedule a retry at your preferred date and confirm account setup.'')
             else if lending_app_upi_txn_count row \<ge> 3 then
               (''Offer restructuring / lower-cost credit line'',
                ''We can review your repayment plan and provide a lower-cost structured option to reduce monthly stress.'')
             else if risk_tier row = Medium then
               (''Soft nudge + budgeting tips'',
                ''You are still in control. A quick budget tune-up and payment reminder can help keep your account healthy.'')
             else if risk_tier row = High then
               (''Priority relationship-manager outreach with repayment planning'',
                ''A relationship manager can contact you today to set up a sustainable repayment plan and avoid delinquency.'')
             else
               (''Continue monitoring'',
                ''No urgent intervention needed right now. We will continue monitoring weekly patterns.''));
          rationale =
            ''Recommended because key drivers this week are ''
              @ join_str '', '' (py_slice_to 2 driver_labels) @ ''.''
      in (action, message, rationale))"


text \<open>A Low-tier row with a failed autodebit and five lending-app transactions.\<close>

definition autodebit_record :: signal_record where
  "autodebit_record =
     \<lparr> customer_id = ''C004'', week = 12, salary_delay_days = 2, savings_drop_pct = 25,
       discretionary_spend_change_pct = 0, utility_payment_delay_days = 0,
       lending_app_upi_txn_count = 5, atm_withdrawal_spike_pct = 0, failed_autodebit = 1 \<rparr>"

definition autodebit_row :: scored_row where
  "autodebit_row =
     signal_record.extend autodebit_record
       (scored_row.fields 0.2405 Low (risk_components autodebit_record))"


subsection \<open>Score history of one customer: stability and trend\<close>

text \<open>
  \<open>df.sort_values("week")\<close> on the rows of one customer. A customer has one row per
  week; for rows with equal weeks pandas' default sort fixes no order, and the properties
  below are stated for histories with distinct weeks.
\<close>

definition sort_values_week :: "'a scored_row_scheme list \<Rightarrow> 'a scored_row_scheme list" where
  "sort_values_week df = sort_key week df"

text \<open>\<open>df.tail(n)\<close>: the last \<open>n\<close> rows, all rows when there are fewer.\<close>

definition df_tail :: "nat \<Rightarrow> 'a list \<Rightarrow> 'a list" where
  "df_tail n df = drop (length df - n) df"

definition mean :: "real list \<Rightarrow> real" where
  "mean xs = sum_list xs / real (length xs)"

text \<open>
  \<open>Series.std()\<close> of pandas: the sample standard deviation (divisor n - 1). The source
  calls it on two or more values only.
\<close>

definition series_std :: "real list \<Rightarrow> real" where
  "series_std xs =
     sqrt (sum_list (map (\<lambda>x. (x - mean xs)\<^sup>2) xs) / (real (length xs) - 1))"

text \<open>The stability block of \<open>render_customer_tab\<close>.\<close>

definition last4 :: "'a scored_row_scheme list \<Rightarrow> real list" where
  "last4 cust_df = map risk_score (df_tail 4 (sort_values_week cust_df))"

definition risk_std :: "'a scored_row_scheme list \<Rightarrow> real" where
  "risk_std cust_df =
     (if length (last4 cust_df) \<ge> 2 then series_std (last4 cust_df) else 0.0)"

definition stability_label :: "'a scored_row_scheme list \<Rightarrow> string" where
  "stability_label cust_df =
     (if risk_std cust_df < 0.05 then ''High stability''
      else if risk_std cust_df \<le> 0.12 then ''Medium stability''
      else ''Low stability'')"

text \<open>A row of customer C001 with the given week and score, for concrete histories.\<close>

definition obs :: "int \<Rightarrow> real \<Rightarrow> scored_row" where
  "obs w s =
     \<lparr> customer_id = ''C001'', week = w, salary_delay_days = 0, savings_drop_pct = 0,
       discretionary_spend_change_pct = 0, utility_payment_delay_days = 0,
       lending_app_upi_txn_count = 0, atm_withdrawal_spike_pct = 0, failed_autodebit = 0,
       risk_score = s, risk_tier = tier s, contrib = (\<lambda>feature. 0) \<rparr>"

definition volatile_history :: "scored_row list" where
  "volatile_history = [obs 3 0.2, obs 1 0.9, obs 5 0.4, obs 2 0.2, obs 4 0.4]"


text \<open>
  \<open>np.polyfit(x, y, 1)[0]\<close>: the slope of the least-squares line through the points
  \<open>(x\<^sub>i, y\<^sub>i)\<close>, from the normal equations. When the x values do not determine a
  unique line (no point, or all x equal) numpy raises or returns a minimum-norm
  solution with a rank warning; that case is not modelled and is \<open>None\<close> here.
\<close>

definition polyfit_slope :: "real list \<Rightarrow> real list \<Rightarrow> real option" where
  "polyfit_slope xs ys =
     (let n = real (length xs);
          sx = sum_list xs;
          sy = sum_list ys;
          sxx = sum_list (map (\<lambda>x. x * x) xs);
          sxy = sum_list (map (\<lambda>(x, y). x * y) (zip xs ys));
          d = n * sxx - sx * sx
      in if d = 0 then None else Some ((n * sxy - sx * sy) / d))"

text \<open>The sum of squared residuals of the line \<open>y = a * x + b\<close>.\<close>

definition sq_error :: "real list \<Rightarrow> real list \<Rightarrow> real \<Rightarrow> real \<Rightarrow> real" where
  "sq_error xs ys a b = sum_list (map (\<lambda>(x, y). (y - (a * x + b))\<^sup>2) (zip xs ys))"

text \<open>\<open>_risk_trend_label\<close> on the rows of one customer.\<close>

definition recent :: "'a scored_row_scheme list \<Rightarrow> 'a scored_row_scheme list" where
  "recent grp = df_tail 3 (sort_values_week grp)"

definition risk_trend_label :: "'a scored_row_scheme list \<Rightarrow> string option" where
  "risk_trend_label grp =
     (case polyfit_slope (map (\<lambda>r. real_of_int (week r)) (recent grp))
             (map risk_score (recent grp)) of
           None \<Rightarrow> None
         | Some slope \<Rightarrow>
             Some (if slope > 0.015 then ''Rising''
                   else if slope < - 0.015 then ''Falling''
                   else ''Stable''))"

definition two_week_history :: "scored_row list" where
  "two_week_history = [obs 1 0.1, obs 2 0.5]"

definition rising_history :: "scored_row list" where
  "rising_history = [obs 2 0.2, obs 1 0.1, obs 4 0.5, obs 3 0.3]"

section \<open>Verified properties\<close>

subsection \<open>Tier classifier\<close>

lemma tier_mono: "a \<le> b \<Longrightarrow> tier_rank (tier a) \<le> tier_rank (tier b)"
  by (simp add: tier_def)

text \<open>
  C1. The tier classifier depends on the score alone: a score below 0.40 is Low, a
  score from 0.40 to 0.70 (both included) is Medium, a score above 0.70 is High; 0.40
  and 0.70 themselves are Medium; and the classifier is monotone in the score for the
  order Low < Medium < High.
\<close>

theorem tier_boundaries:
  "(s < 0.4 \<longrightarrow> tier s = Low) \<and>
   (0.4 \<le> s \<and> s \<le> 0.7 \<longrightarrow> tier s = Medium) \<and>
   (0.7 < s \<longrightarrow> tier s = High) \<and>
   tier 0.4 = Medium \<and> tier 0.7 = Medium \<and>
   (s \<le> t \<longrightarrow> tier_rank (tier s) \<le> tier_rank (tier t))"
  by (simp add: tier_def)

theorem tier_boundaries_witness:
  "tier 0.39 = Low \<and> tier 0.400001 = Medium \<and> tier 0.700001 = High \<and>
   tier_rank (tier 0.39) \<le> tier_rank (tier 0.700001)"
  using tier_boundaries [of "0.39" "0.700001"] tier_boundaries [of "0.400001" "0.5"]
    tier_boundaries [of "0.700001" "0.8"]
  by simp


subsection \<open>Composite scorer\<close>

lemma np_clip_unit: "0 \<le> np_clip a 0 1 \<and> np_clip a 0 1 \<le> 1"
  by (simp add: np_clip_def)

lemma weights_pos: "0 < WEIGHTS f"
  by (cases f) simp_all

lemma weights_sum: "sum_list (map WEIGHTS FEATURES) = 1"
  by (simp add: FEATURES_def)

lemma clipped_component_bounds:
  "0 \<le> np_clip a 0 1 * WEIGHTS f \<and> np_clip a 0 1 * WEIGHTS f \<le> WEIGHTS f"
proof -
  have w: "0 \<le> WEIGHTS f" using weights_pos [of f] by simp
  have c: "0 \<le> np_clip a 0 1" "np_clip a 0 1 \<le> 1" using np_clip_unit [of a] by simp_all
  have "np_clip a 0 1 * WEIGHTS f \<le> 1 * WEIGHTS f"
    using c(2) w by (rule mult_right_mono)
  with c(1) w show ?thesis by simp
qed

lemma flag_component:
  assumes "failed_autodebit df = 0 \<or> failed_autodebit df = 1"
  shows "risk_components df F_failed_autodebit
           = np_clip (real_of_int (failed_autodebit df)) 0 1 * WEIGHTS F_failed_autodebit"
  using assms by (auto simp: np_clip_def)

lemma component_is_clipped:
  assumes "failed_autodebit df = 0 \<or> failed_autodebit df = 1"
  shows "risk_components df f = np_clip (spec_linear f df) 0 1 * WEIGHTS f"
proof (cases f)
  case F_failed_autodebit
  then show ?thesis using flag_component [OF assms] by simp
qed simp_all

lemma component_bounds:
  assumes "failed_autodebit df = 0 \<or> failed_autodebit df = 1"
  shows "0 \<le> risk_components df f \<and> risk_components df f \<le> WEIGHTS f"
  using component_is_clipped [OF assms, of f] clipped_component_bounds [of "spec_linear f df" f]
  by simp

lemma sum_list_map_mono_real:
  "(\<And>x. x \<in> set xs \<Longrightarrow> f x \<le> (g x :: real)) \<Longrightarrow> sum_list (map f xs) \<le> sum_list (map g xs)"
  by (induction xs) (auto intro: add_mono)

lemma comp_sum_bounds:
  assumes "failed_autodebit df = 0 \<or> failed_autodebit df = 1"
  shows "0 \<le> comp_sum df \<and> comp_sum df \<le> 1"
proof -
  have "sum_list (map (\<lambda>f. 0::real) FEATURES) \<le> sum_list (map (risk_components df) FEATURES)"
    by (rule sum_list_map_mono_real) (simp add: component_bounds [OF assms])
  moreover have "sum_list (map (risk_components df) FEATURES) \<le> sum_list (map WEIGHTS FEATURES)"
    by (rule sum_list_map_mono_real) (simp add: component_bounds [OF assms])
  ultimately show ?thesis by (simp add: comp_sum_def weights_sum)
qed

lemma score_record_Inr:
  "score_record df =
     Inr (signal_record.extend df
       (scored_row.fields (np_clip (comp_sum df) 0 1) (tier (np_clip (comp_sum df) 0 1))
          (risk_components df)))"
  by (simp add: score_record_def Let_def)

lemma extend_sel:
  "risk_score (signal_record.extend df (scored_row.fields s t c)) = s"
  "risk_tier (signal_record.extend df (scored_row.fields s t c)) = t"
  "contrib (signal_record.extend df (scored_row.fields s t c)) = c"
  by (simp_all add: signal_record.defs scored_row.defs)

text \<open>
  C2. For every signal record whose \<open>failed_autodebit\<close> is the 0/1 flag of the data
  model: each of the seven contributions lies between 0 and the weight of its signal and
  is the clipped linear normalization of the specification's table times that weight;
  the seven weights sum to 1 (within 1e-9); the risk score is the sum of the
  contributions clamped to [0, 1]; and the unclamped sum is at most 1, so the clamp
  leaves the sum as it is.
\<close>

theorem composite_score_contract:
  assumes "failed_autodebit df = 0 \<or> failed_autodebit df = 1"
  shows "(\<forall>f. 0 \<le> risk_components df f \<and> risk_components df f \<le> WEIGHTS f \<and>
              risk_components df f = np_clip (spec_linear f df) 0 1 * WEIGHTS f) \<and>
         \<bar>sum_list (map WEIGHTS FEATURES) - 1\<bar> \<le> 1 / 10 ^ 9 \<and>
         (\<exists>row. score_record df = Inr row \<and>
                contrib row = risk_components df \<and>
                risk_score row = np_clip (sum_list (map (contrib row) FEATURES)) 0 1 \<and>
                sum_list (map (contrib row) FEATURES) \<le> 1 \<and>
                risk_score row = sum_list (map (contrib row) FEATURES))"
proof -
  have a: "\<forall>f. 0 \<le> risk_components df f \<and> risk_components df f \<le> WEIGHTS f \<and>
              risk_components df f = np_clip (spec_linear f df) 0 1 * WEIGHTS f"
    using component_bounds [OF assms] component_is_clipped [OF assms] by simp
  have b: "\<bar>sum_list (map WEIGHTS FEATURES) - 1\<bar> \<le> 1 / 10 ^ 9"
    by (simp add: weights_sum)
  have s: "0 \<le> comp_sum df" "comp_sum df \<le> 1"
    using comp_sum_bounds [OF assms] by simp_all
  then have n: "np_clip (comp_sum df) 0 1 = comp_sum df"
    by (simp add: np_clip_def)
  define row where "row = signal_record.extend df
       (scored_row.fields (np_clip (comp_sum df) 0 1) (tier (np_clip (comp_sum df) 0 1))
          (risk_components df))"
  have r: "score_record df = Inr row"
    unfolding row_def by (rule score_record_Inr)
  have c: "contrib row = risk_components df" and rs: "risk_score row = np_clip (comp_sum df) 0 1"
    unfolding row_def by (simp_all add: extend_sel)
  have cs: "sum_list (map (contrib row) FEATURES) = comp_sum df"
    by (simp add: c comp_sum_def)
  have "score_record df = Inr row \<and>
        contrib row = risk_components df \<and>
        risk_score row = np_clip (sum_list (map (contrib row) FEATURES)) 0 1 \<and>
        sum_list (map (contrib row) FEATURES) \<le> 1 \<and>
        risk_score row = sum_list (map (contrib row) FEATURES)"
    using r c rs cs s n by simp
  then have d: "\<exists>row. score_record df = Inr row \<and>
        contrib row = risk_components df \<and>
        risk_score row = np_clip (sum_list (map (contrib row) FEATURES)) 0 1 \<and>
        sum_list (map (contrib row) FEATURES) \<le> 1 \<and>
        risk_score row = sum_list (map (contrib row) FEATURES)" ..
  from a b d show ?thesis by (intro conjI)
qed

theorem composite_score_contract_witness:
  "(failed_autodebit stressed_record = 0 \<or> failed_autodebit stressed_record = 1) \<and>
   risk_components stressed_record F_salary_delay_days = 0.18 \<and>
   risk_components stressed_record F_failed_autodebit = 0.15 \<and>
   (\<exists>row. score_record stressed_record = Inr row \<and> risk_score row = 1)"
proof -
  have h: "failed_autodebit stressed_record = 0 \<or> failed_autodebit stressed_record = 1"
    by (simp add: stressed_record_def)
  have v: "sum_list (map (risk_components stressed_record) FEATURES) = 1"
    by (simp add: stressed_record_def FEATURES_def np_clip_def)
  have "\<exists>row. score_record stressed_record = Inr row \<and> risk_score row = 1"
    using composite_score_contract [OF h] v by auto
  moreover have "risk_components stressed_record F_salary_delay_days = 0.18"
    "risk_components stressed_record F_failed_autodebit = 0.15"
    by (simp_all add: stressed_record_def np_clip_def)
  ultimately show ?thesis using h by simp
qed


text \<open>
  C8. The claim: every malformed or out-of-domain signal record is rejected with an
  InputError before scoring. The code validates nothing: a record with negative day
  counts is scored (here with score 0, tier Low).
\<close>

theorem negative_days_scored_counterexample:
  "salary_delay_days negative_delay_record = - 1 \<and>
   utility_payment_delay_days negative_delay_record = - 2 \<and>
   score_record negative_delay_record \<noteq> Inl InputError \<and>
   (case score_record negative_delay_record of
      Inl e \<Rightarrow> False
    | Inr row \<Rightarrow> risk_score row = 0 \<and> risk_tier row = Low)"
  by (simp add: score_record_Inr extend_sel negative_delay_record_def comp_sum_def
      FEATURES_def np_clip_def tier_def)

text \<open>
  C8 as the code has it: every signal record, in the documented domain or not, is
  scored, never rejected; the score lies in [0, 1] and the tier is that of the score;
  day counts at or below the lower knee of their clip (negative ones among them)
  contribute 0.
\<close>

theorem score_record_never_rejects:
  "\<exists>row. score_record df = Inr row \<and>
     0 \<le> risk_score row \<and> risk_score row \<le> 1 \<and>
     risk_tier row = tier (risk_score row) \<and>
     (salary_delay_days df \<le> 3 \<longrightarrow> contrib row F_salary_delay_days = 0) \<and>
     (utility_payment_delay_days df \<le> 5 \<longrightarrow> contrib row F_utility_payment_delay_days = 0)"
  by (simp add: score_record_Inr extend_sel np_clip_unit) (simp add: np_clip_def)

theorem score_record_never_rejects_witness:
  "\<exists>row. score_record negative_delay_record = Inr row \<and>
     contrib row F_salary_delay_days = 0 \<and>
     contrib row F_utility_payment_delay_days = 0"
  using score_record_never_rejects [of negative_delay_record]
  by (auto simp: negative_delay_record_def)

subsection \<open>Customer view\<close>

text \<open>
  C10. For a row whose score is non-negative and whose tier is the tier of its score,
  the projected score is score * (1 - r) with r = 0.40 for High, 0.20 for Medium and
  0.05 for Low; it never exceeds the score, and the projected tier is never above the
  row's tier in the order Low < Medium < High.
\<close>

theorem adjusted_score_not_higher:
  assumes "0 \<le> risk_score row" and "risk_tier row = tier (risk_score row)"
  shows "adjusted_score row =
           risk_score row * (1 - (case risk_tier row of High \<Rightarrow> 0.40 | Medium \<Rightarrow> 0.20 | Low \<Rightarrow> 0.05)) \<and>
         adjusted_score row \<le> risk_score row \<and>
         tier_rank (adjusted_tier row) \<le> tier_rank (risk_tier row)"
proof -
  have r: "0 \<le> reduction_factor (risk_tier row)" "reduction_factor (risk_tier row) < 1"
    by (simp_all add: reduction_factor_def)
  have e: "adjusted_score row =
           risk_score row * (1 - (case risk_tier row of High \<Rightarrow> 0.40 | Medium \<Rightarrow> 0.20 | Low \<Rightarrow> 0.05))"
    by (cases "risk_tier row") (simp_all add: adjusted_score_def reduction_factor_def)
  have "risk_score row * (1 - reduction_factor (risk_tier row)) \<le> risk_score row * 1"
    using assms(1) r(1) by (intro mult_left_mono) simp_all
  then have l: "adjusted_score row \<le> risk_score row"
    by (simp add: adjusted_score_def)
  have "tier_rank (tier (adjusted_score row)) \<le> tier_rank (tier (risk_score row))"
    using l by (rule tier_mono)
  then have t: "tier_rank (adjusted_tier row) \<le> tier_rank (risk_tier row)"
    by (simp add: adjusted_tier_def assms(2))
  from e l t show ?thesis by (intro conjI)
qed

theorem adjusted_score_not_higher_witness:
  "adjusted_score (\<lparr> customer_id = ''C003'', week = 12, salary_delay_days = 7,
       savings_drop_pct = 40, discretionary_spend_change_pct = - 70,
       utility_payment_delay_days = 10, lending_app_upi_txn_count = 8,
       atm_withdrawal_spike_pct = 60, failed_autodebit = 1,
       risk_score = 0.8, risk_tier = High, contrib = risk_components stressed_record \<rparr>) = 0.48 \<and>
   adjusted_tier (\<lparr> customer_id = ''C003'', week = 12, salary_delay_days = 7,
       savings_drop_pct = 40, discretionary_spend_change_pct = - 70,
       utility_payment_delay_days = 10, lending_app_upi_txn_count = 8,
       atm_withdrawal_spike_pct = 60, failed_autodebit = 1,
       risk_score = 0.8, risk_tier = High, contrib = risk_components stressed_record \<rparr>) = Medium"
  using adjusted_score_not_higher [of "\<lparr> customer_id = ''C003'', week = 12, salary_delay_days = 7,
       savings_drop_pct = 40, discretionary_spend_change_pct = - 70,
       utility_payment_delay_days = 10, lending_app_upi_txn_count = 8,
       atm_withdrawal_spike_pct = 60, failed_autodebit = 1,
       risk_score = 0.8, risk_tier = High, contrib = risk_components stressed_record \<rparr>"]
  by (simp add: tier_def adjusted_tier_def)

subsection \<open>Impact simulator\<close>

lemmas sim_defs =
  eligible_cases_def contacted_high_def remaining_cap_def contacted_medium_def
  non_contacted_high_def non_contacted_medium_def overflow_def defaults_wo_def ead_wo_def
  credit_loss_wo_def recover_wo_def collection_cost_wo_def reduced_high_def
  reduced_medium_def recovery_contacted_def contacted_defaults_def
  non_contacted_defaults_def defaults_w_def contacted_ead_def non_contacted_ead_def
  ead_w_def credit_loss_w_def recover_w_def collection_cost_w_def outreach_cost_def
  default_reduction_pct_def credit_loss_saved_def collection_saved_def net_savings_def

text \<open>
  C3. In the scenario of the specification (30 High, 50 Medium, capacity 120, rates
  0.15 and 0.07, effects 0.40 and 0.20, and the other parameters as listed) the simulator
  contacts 30 High and 50 Medium cases, expects 8.0 defaults without and 5.5 with the
  engine, a default reduction of 31.25 percent, and net savings equal to
  (credit_loss_wo + collection_cost_wo) - (credit_loss_w + collection_cost_w) -
  outreach_cost, which is 75000.
\<close>

theorem spec_scenario_report:
  "contacted_high spec_scenario = 30 \<and>
   contacted_medium spec_scenario = 50 \<and>
   overflow spec_scenario = 0 \<and>
   defaults_wo spec_scenario = 8.0 \<and>
   defaults_w spec_scenario = 5.5 \<and>
   default_reduction_pct spec_scenario = 31.25 \<and>
   net_savings spec_scenario =
     (credit_loss_wo spec_scenario + collection_cost_wo spec_scenario)
       - (credit_loss_w spec_scenario + collection_cost_w spec_scenario)
       - real_of_int (outreach_cost spec_scenario) \<and>
   net_savings spec_scenario = 75000"
  by (simp add: sim_defs spec_scenario_def)

text \<open>
  C4. For non-negative tier counts and capacity, High cases are served first:
  contacted_high = min(high_count, capacity) and contacted_medium = min(medium_count,
  max(0, capacity - contacted_high)); so contacted_high + contacted_medium never
  exceeds the capacity, and overflow = max(0, high_count + medium_count - capacity) is
  never negative.
\<close>

theorem capacity_allocation:
  assumes "0 \<le> high_count p" and "0 \<le> medium_count p" and "0 \<le> outreach_capacity p"
  shows "contacted_high p = min (high_count p) (outreach_capacity p) \<and>
         contacted_medium p =
           min (medium_count p) (max 0 (outreach_capacity p - contacted_high p)) \<and>
         contacted_high p + contacted_medium p \<le> outreach_capacity p \<and>
         overflow p = max 0 (high_count p + medium_count p - outreach_capacity p) \<and>
         0 \<le> overflow p"
  using assms
  by (simp add: contacted_high_def contacted_medium_def remaining_cap_def overflow_def
      eligible_cases_def)

theorem capacity_allocation_witness:
  "contacted_high overflow_scenario = 100 \<and> contacted_medium overflow_scenario = 20 \<and>
   overflow overflow_scenario = 30"
  using capacity_allocation [of overflow_scenario]
  by (simp add: overflow_scenario_def spec_scenario_def)

subsection \<open>Driver attributor\<close>

lemma decl_index_FEATURES: "decl_index f < length FEATURES \<and> FEATURES ! decl_index f = f"
  by (cases f) (simp_all add: FEATURES_def)

lemma insort_desc_ranked:
  assumes "sorted_wrt ranked_before ys"
    and "\<forall>y \<in> set ys. decl_index (fst x) < decl_index (fst y)"
  shows "sorted_wrt ranked_before (insort_key (\<lambda>p. - snd p) x ys)"
  using assms
proof (induction ys)
  case Nil
  then show ?case by simp
next
  case (Cons y ys)
  show ?case
  proof (cases "snd y \<le> snd x")
    case True
    have "ranked_before x z" if "z \<in> set (y # ys)" for z
    proof -
      have "snd z \<le> snd y"
        using that Cons.prems(1) by (auto simp: ranked_before_def)
      moreover have "decl_index (fst x) < decl_index (fst z)"
        using that Cons.prems(2) by auto
      ultimately show ?thesis using True by (auto simp: ranked_before_def)
    qed
    then show ?thesis using True Cons.prems(1) by simp
  next
    case False
    then have yx: "ranked_before y x" by (simp add: ranked_before_def)
    have ih: "sorted_wrt ranked_before (insort_key (\<lambda>p. - snd p) x ys)"
      using Cons.IH Cons.prems by simp
    have "ranked_before y z" if "z \<in> set (insort_key (\<lambda>p. - snd p) x ys)" for z
      using that yx Cons.prems(1) by (auto simp: set_insort_key)
    then show ?thesis using False ih by simp
  qed
qed

lemma py_sorted_desc_ranked:
  assumes "sorted_wrt (\<lambda>a b. decl_index (fst a) < decl_index (fst b)) xs"
  shows "sorted_wrt ranked_before (py_sorted_desc snd xs)"
  using assms
proof (induction xs)
  case Nil
  then show ?case by (simp add: py_sorted_desc_def)
next
  case (Cons x xs)
  have "sorted_wrt ranked_before (sort_key (\<lambda>p. - snd p) xs)"
    using Cons by (simp add: py_sorted_desc_def)
  moreover have "\<forall>y \<in> set (sort_key (\<lambda>p. - snd p) xs). decl_index (fst x) < decl_index (fst y)"
    using Cons.prems by simp
  ultimately show ?case
    by (simp add: py_sorted_desc_def insort_desc_ranked)
qed

lemma pairs_in_declaration_order:
  "sorted_wrt (\<lambda>a b. decl_index (fst a) < decl_index (fst b))
     (map (\<lambda>feature. (feature, c feature)) FEATURES)"
  by (simp add: FEATURES_def)

lemma sorted_wrt_take_any: "sorted_wrt R xs \<Longrightarrow> sorted_wrt R (take k xs)"
  by (induction xs arbitrary: k) (auto simp: take_Cons split: nat.splits dest: in_set_takeD)

lemma top_drivers_nonneg:
  "0 \<le> n \<Longrightarrow> top_drivers row n =
     take (nat n) (py_sorted_desc snd (map (\<lambda>feature. (feature, contrib row feature)) FEATURES))"
  by (simp add: top_drivers_def py_slice_to_def Let_def)

lemma sorted_pairs_set:
  "set (py_sorted_desc snd (map (\<lambda>feature. (feature, c feature)) FEATURES))
     = (\<lambda>feature. (feature, c feature)) ` set FEATURES"
  by (simp add: py_sorted_desc_def)

lemma sorted_pairs_distinct:
  "distinct (map fst (py_sorted_desc snd (map (\<lambda>feature. (feature, c feature)) FEATURES)))"
proof -
  let ?ps = "py_sorted_desc snd (map (\<lambda>feature. (feature, c feature)) FEATURES)"
  have "distinct FEATURES" by (simp add: FEATURES_def)
  then have d: "distinct ?ps"
    unfolding py_sorted_desc_def distinct_sort by (simp add: distinct_map inj_on_def)
  have "inj_on fst (set ?ps)"
    by (auto simp: sorted_pairs_set inj_on_def)
  with d show ?thesis by (simp add: distinct_map)
qed

text \<open>
  C6. For every row and every count n (not negative), \<open>top_drivers\<close> returns the first n of
  the seven (signal, contribution) pairs sorted by descending contribution: the result
  is sorted descending, holds min(n, 7) pairs of distinct signals among the seven, each
  with its own contribution, and pairs with equal contributions stand in the
  declaration order of \<open>FEATURES\<close>.
\<close>

theorem top_drivers_ranked:
  assumes "0 \<le> n"
  shows "top_drivers row n =
           take (nat n) (py_sorted_desc snd (map (\<lambda>feature. (feature, contrib row feature)) FEATURES)) \<and>
         sorted_wrt (\<lambda>p q. snd p \<ge> snd q) (top_drivers row n) \<and>
         length (top_drivers row n) = min (nat n) 7 \<and>
         distinct (map fst (top_drivers row n)) \<and>
         set (map fst (top_drivers row n)) \<subseteq> set FEATURES \<and>
         (\<forall>p \<in> set (top_drivers row n). snd p = contrib row (fst p)) \<and>
         sorted_wrt (\<lambda>p q. snd p = snd q \<longrightarrow> decl_index (fst p) < decl_index (fst q))
           (top_drivers row n) \<and>
         (\<forall>f. decl_index f < length FEATURES \<and> FEATURES ! decl_index f = f)"
proof -
  let ?ps = "py_sorted_desc snd (map (\<lambda>feature. (feature, contrib row feature)) FEATURES)"
  have t: "top_drivers row n = take (nat n) ?ps"
    using assms by (rule top_drivers_nonneg)
  have r: "sorted_wrt ranked_before (take (nat n) ?ps)"
    by (intro sorted_wrt_take_any py_sorted_desc_ranked pairs_in_declaration_order)
  have s1: "sorted_wrt (\<lambda>p q. snd p \<ge> snd q) (take (nat n) ?ps)"
    by (rule sorted_wrt_mono_rel [OF _ r]) (auto simp: ranked_before_def)
  have s2: "sorted_wrt (\<lambda>p q. snd p = snd q \<longrightarrow> decl_index (fst p) < decl_index (fst q))
              (take (nat n) ?ps)"
    by (rule sorted_wrt_mono_rel [OF _ r]) (auto simp: ranked_before_def)
  have "length FEATURES = 7" by (simp add: FEATURES_def)
  then have "length ?ps = 7"
    unfolding py_sorted_desc_def length_sort by simp
  then have l: "length (take (nat n) ?ps) = min (nat n) 7"
    by (simp add: min.commute)
  have d: "distinct (map fst (take (nat n) ?ps))"
    using sorted_pairs_distinct [of "contrib row"] by (simp add: take_map [symmetric] distinct_take)
  have m: "set (take (nat n) ?ps) \<subseteq> (\<lambda>feature. (feature, contrib row feature)) ` set FEATURES"
    using set_take_subset [of "nat n" ?ps] by (simp add: sorted_pairs_set)
  have f: "set (map fst (take (nat n) ?ps)) \<subseteq> set FEATURES"
    using m by auto
  have c: "\<forall>p \<in> set (take (nat n) ?ps). snd p = contrib row (fst p)"
    using m by auto
  from t s1 s2 l d f c show ?thesis by (simp add: decl_index_FEATURES)
qed


theorem top_drivers_ranked_witness:
  "top_drivers stressed_row 5 =
     [(F_salary_delay_days, 0.18), (F_savings_drop_pct, 0.17), (F_failed_autodebit, 0.15),
      (F_discretionary_spend_change_pct, 0.14), (F_utility_payment_delay_days, 0.14)]"
proof -
  have c: "contrib stressed_row = risk_components stressed_record"
    by (simp add: stressed_row_def extend_sel)
  have v: "map (\<lambda>feature. (feature, risk_components stressed_record feature)) FEATURES =
     [(F_salary_delay_days, 0.18), (F_savings_drop_pct, 0.17),
      (F_discretionary_spend_change_pct, 0.14), (F_utility_payment_delay_days, 0.14),
      (F_lending_app_upi_txn_count, 0.12), (F_atm_withdrawal_spike_pct, 0.10),
      (F_failed_autodebit, 0.15)]"
    by (simp add: FEATURES_def stressed_record_def np_clip_def)
  have "(0::int) \<le> 5" by simp
  from top_drivers_ranked [OF this, of stressed_row] show ?thesis
    by (simp add: c v py_sorted_desc_def)
qed

subsection \<open>Intervention engine\<close>

lemma sorted_pairs_length:
  "length (py_sorted_desc snd (map (\<lambda>feature. (feature, c feature)) FEATURES)) = 7"
proof -
  have "length FEATURES = 7" by (simp add: FEATURES_def)
  then show ?thesis unfolding py_sorted_desc_def length_sort by simp
qed

lemma take_two_of_long: "2 \<le> length xs \<Longrightarrow> take 2 xs = [xs ! 0, xs ! 1]"
  by (cases xs; cases "tl xs") auto

lemma top_two_drivers:
  "top_drivers row 2 = [top_drivers row 2 ! 0, top_drivers row 2 ! 1]"
proof -
  let ?ps = "py_sorted_desc snd (map (\<lambda>feature. (feature, contrib row feature)) FEATURES)"
  have t: "top_drivers row 2 = take 2 ?ps"
    using top_drivers_nonneg [of 2 row] by simp
  have "take 2 ?ps = [?ps ! 0, ?ps ! 1]"
    by (rule take_two_of_long) (simp add: sorted_pairs_length)
  then show ?thesis using t by simp
qed

lemma labels_of_top_three:
  "py_slice_to 2 (driver_labels_of (top_drivers row 3)) = driver_labels_of (top_drivers row 2)"
proof -
  have "top_drivers row 3 = take 3 (py_sorted_desc snd (map (\<lambda>feature. (feature, contrib row feature)) FEATURES))"
    using top_drivers_nonneg [of 3 row] by simp
  moreover have "top_drivers row 2 = take 2 (py_sorted_desc snd (map (\<lambda>feature. (feature, contrib row feature)) FEATURES))"
    using top_drivers_nonneg [of 2 row] by simp
  ultimately show ?thesis
    by (simp add: py_slice_to_def driver_labels_of_def take_map)
qed

lemma labels_of_top_two:
  "py_slice_to 2 (driver_labels_of (top_drivers row 2)) = driver_labels_of (top_drivers row 2)"
proof -
  have "length (driver_labels_of (top_drivers row 2)) = 2"
    by (subst top_two_drivers) (simp add: driver_labels_of_def)
  then show ?thesis by (simp add: py_slice_to_def)
qed

lemma join_two_labels:
  "join_str '', '' (driver_labels_of (top_drivers row 2)) =
     FEATURE_LABELS (fst (top_drivers row 2 ! 0)) @ '', '' @
     FEATURE_LABELS (fst (top_drivers row 2 ! 1))"
  by (subst top_two_drivers) (simp add: driver_labels_of_def)

lemma rationale_eq:
  "snd (snd (intervention_engine row driver_labels)) =
     ''Recommended because key drivers this week are '' @ join_str '', '' (py_slice_to 2 driver_labels) @ ''.''"
  by (simp add: intervention_engine_def Let_def split: prod.splits)

text \<open>
  C5. The intervention engine tries its six rules in the stated order on the raw
  signals and the tier of one row, and the first rule that matches alone gives the
  action and the message: (1) salary delay above 3 and savings drop above 20, (2) else a
  failed autodebit, (3) else at least 3 lending-app transactions, (4) else tier Medium,
  (5) else tier High, (6) else continue monitoring. Whatever rule fired, the rationale
  cites the first two of the driver labels passed in, which are the labels of the top
  two drivers both when the caller passes the labels of the top three (customer view)
  and of the top two (portfolio queue).
\<close>

theorem intervention_first_match:
  "((salary_delay_days row > 3 \<and> savings_drop_pct row > 20 \<longrightarrow>
      fst (intervention_engine row driver_labels) = ''Offer EMI date shift / short grace period'' \<and>
      fst (snd (intervention_engine row driver_labels)) = ''We noticed temporary cashflow pressure. We can shift your EMI date or provide a short grace period to avoid penalties.'') \<and>
     (\<not> (salary_delay_days row > 3 \<and> savings_drop_pct row > 20) \<and>
      failed_autodebit row = 1 \<longrightarrow>
      fst (intervention_engine row driver_labels) = ''Immediate proactive outreach + payment retry scheduling'' \<and>
      fst (snd (intervention_engine row driver_labels)) = ''Your last autodebit did not go through. We can help schedule a retry at your preferred date and confirm account setup.'') \<and>
     (\<not> (salary_delay_days row > 3 \<and> savings_drop_pct row > 20) \<and>
      failed_autodebit row \<noteq> 1 \<and>
      lending_app_upi_txn_count row \<ge> 3 \<longrightarrow>
      fst (intervention_engine row driver_labels) = ''Offer restructuring / lower-cost credit line'' \<and>
      fst (snd (intervention_engine row driver_labels)) = ''We can review your repayment plan and provide a lower-cost structured option to reduce monthly stress.'') \<and>
     (\<not> (salary_delay_days row > 3 \<and> savings_drop_pct row > 20) \<and>
      failed_autodebit row \<noteq> 1 \<and>
      lending_app_upi_txn_count row < 3 \<and>
      risk_tier row = Medium \<longrightarrow>
      fst (intervention_engine row driver_labels) = ''Soft nudge + budgeting tips'' \<and>
      fst (snd (intervention_engine row driver_labels)) = ''You are still in control. A quick budget tune-up and payment reminder can help keep your account healthy.'') \<and>
     (\<not> (salary_delay_days row > 3 \<and> savings_drop_pct row > 20) \<and>
      failed_autodebit row \<noteq> 1 \<and>
      lending_app_upi_txn_count row < 3 \<and>
      risk_tier row \<noteq> Medium \<and>
      risk_tier row = High \<longrightarrow>
      fst (intervention_engine row driver_labels) = ''Priority relationship-manager outreach with repayment planning'' \<and>
      fst (snd (intervention_engine row driver_labels)) = ''A relationship manager can contact you today to set up a sustainable repayment plan and avoid delinquency.'') \<and>
     (\<not> (salary_delay_days row > 3 \<and> savings_drop_pct row > 20) \<and>
      failed_autodebit row \<noteq> 1 \<and>
      lending_app_upi_txn_count row < 3 \<and>
      risk_tier row \<noteq> Medium \<and>
      risk_tier row \<noteq> High \<longrightarrow>
      fst (intervention_engine row driver_labels) = ''Continue monitoring'' \<and>
      fst (snd (intervention_engine row driver_labels)) = ''No urgent intervention needed right now. We will continue monitoring weekly patterns.'')) \<and>
     snd (snd (intervention_engine row driver_labels)) =
       ''Recommended because key drivers this week are '' @ join_str '', '' (take 2 driver_labels) @ ''.'' \<and>
     snd (snd (intervention_engine row (driver_labels_of (top_drivers row 3)))) =
       ''Recommended because key drivers this week are '' @ FEATURE_LABELS (fst (top_drivers row 2 ! 0)) @ '', ''
         @ FEATURE_LABELS (fst (top_drivers row 2 ! 1)) @ ''.'' \<and>
     snd (snd (intervention_engine row (driver_labels_of (top_drivers row 2)))) =
       ''Recommended because key drivers this week are '' @ FEATURE_LABELS (fst (top_drivers row 2 ! 0)) @ '', ''
         @ FEATURE_LABELS (fst (top_drivers row 2 ! 1)) @ ''.''"
proof -
  have a: "(salary_delay_days row > 3 \<and> savings_drop_pct row > 20 \<longrightarrow>
      fst (intervention_engine row driver_labels) = ''Offer EMI date shift / short grace period'' \<and>
      fst (snd (intervention_engine row driver_labels)) = ''We noticed temporary cashflow pressure. We can shift your EMI date or provide a short grace period to avoid penalties.'') \<and>
     (\<not> (salary_delay_days row > 3 \<and> savings_drop_pct row > 20) \<and>
      failed_autodebit row = 1 \<longrightarrow>
      fst (intervention_engine row driver_labels) = ''Immediate proactive outreach + payment retry scheduling'' \<and>
      fst (snd (intervention_engine row driver_labels)) = ''Your last autodebit did not go through. We can help schedule a retry at your preferred date and confirm account setup.'') \<and>
     (\<not> (salary_delay_days row > 3 \<and> savings_drop_pct row > 20) \<and>
      failed_autodebit row \<noteq> 1 \<and>
      lending_app_upi_txn_count row \<ge> 3 \<longrightarrow>
      fst (intervention_engine row driver_labels) = ''Offer restructuring / lower-cost credit line'' \<and>
      fst (snd (intervention_engine row driver_labels)) = ''We can review your repayment plan and provide a lower-cost structured option to reduce monthly stress.'') \<and>
     (\<not> (salary_delay_days row > 3 \<and> savings_drop_pct row > 20) \<and>
      failed_autodebit row \<noteq> 1 \<and>
      lending_app_upi_txn_count row < 3 \<and>
      risk_tier row = Medium \<longrightarrow>
      fst (intervention_engine row driver_labels) = ''Soft nudge + budgeting tips'' \<and>
      fst (snd (intervention_engine row driver_labels)) = ''You are still in control. A quick budget tune-up and payment reminder can help keep your account healthy.'') \<and>
     (\<not> (salary_delay_days row > 3 \<and> savings_drop_pct row > 20) \<and>
      failed_autodebit row \<noteq> 1 \<and>
      lending_app_upi_txn_count row < 3 \<and>
      risk_tier row \<noteq> Medium \<and>
      risk_tier row = High \<longrightarrow>
      fst (intervention_engine row driver_labels) = ''Priority relationship-manager outreach with repayment planning'' \<and>
      fst (snd (intervention_engine row driver_labels)) = ''A relationship manager can contact you today to set up a sustainable repayment plan and avoid delinquency.'') \<and>
     (\<not> (salary_delay_days row > 3 \<and> savings_drop_pct row > 20) \<and>
      failed_autodebit row \<noteq> 1 \<and>
      lending_app_upi_txn_count row < 3 \<and>
      risk_tier row \<noteq> Medium \<and>
      risk_tier row \<noteq> High \<longrightarrow>
      fst (intervention_engine row driver_labels) = ''Continue monitoring'' \<and>
      fst (snd (intervention_engine row driver_labels)) = ''No urgent intervention needed right now. We will continue monitoring weekly patterns.'')"
    by (simp add: intervention_engine_def Let_def)
  have b: "snd (snd (intervention_engine row driver_labels)) =
       ''Recommended because key drivers this week are '' @ join_str '', '' (take 2 driver_labels) @ ''.''"
    by (simp add: rationale_eq py_slice_to_def)
  have c: "snd (snd (intervention_engine row (driver_labels_of (top_drivers row 3)))) =
       ''Recommended because key drivers this week are '' @ FEATURE_LABELS (fst (top_drivers row 2 ! 0)) @ '', ''
         @ FEATURE_LABELS (fst (top_drivers row 2 ! 1)) @ ''.''"
    unfolding rationale_eq labels_of_top_three join_two_labels by simp
  have d: "snd (snd (intervention_engine row (driver_labels_of (top_drivers row 2)))) =
       ''Recommended because key drivers this week are '' @ FEATURE_LABELS (fst (top_drivers row 2 ! 0)) @ '', ''
         @ FEATURE_LABELS (fst (top_drivers row 2 ! 1)) @ ''.''"
    unfolding rationale_eq labels_of_top_two join_two_labels by simp
  show ?thesis by (rule conjI [OF a conjI [OF b conjI [OF c d]]])
qed


lemma stressed_top_two:
  "top_drivers stressed_row 2 = [(F_salary_delay_days, 0.18), (F_savings_drop_pct, 0.17)]"
proof -
  have c: "contrib stressed_row = risk_components stressed_record"
    by (simp add: stressed_row_def extend_sel)
  have v: "map (\<lambda>feature. (feature, risk_components stressed_record feature)) FEATURES =
     [(F_salary_delay_days, 0.18), (F_savings_drop_pct, 0.17),
      (F_discretionary_spend_change_pct, 0.14), (F_utility_payment_delay_days, 0.14),
      (F_lending_app_upi_txn_count, 0.12), (F_atm_withdrawal_spike_pct, 0.10),
      (F_failed_autodebit, 0.15)]"
    by (simp add: FEATURES_def stressed_record_def np_clip_def)
  show ?thesis
    using top_drivers_nonneg [of 2 stressed_row] by (simp add: c v py_sorted_desc_def)
qed

theorem intervention_first_match_witness:
  "fst (intervention_engine autodebit_row []) =
     ''Immediate proactive outreach + payment retry scheduling'' \<and>
   snd (snd (intervention_engine stressed_row (driver_labels_of (top_drivers stressed_row 3)))) =
     ''Recommended because key drivers this week are Salary Delay Days, Savings Drop %.''"
  using intervention_first_match [of autodebit_row "[]"]
    intervention_first_match [of stressed_row "[]"]
  by (simp add: autodebit_row_def autodebit_record_def signal_record.defs scored_row.defs
      stressed_top_two)

subsection \<open>Stability estimator\<close>

lemma df_tail_length: "length (df_tail n xs) = min n (length xs)"
  by (simp add: df_tail_def)

lemma last4_length: "length (last4 cust_df) = min 4 (length cust_df)"
  by (simp add: last4_def df_tail_length sort_values_week_def)

lemma series_std_nonneg:
  assumes "2 \<le> length xs"
  shows "0 \<le> series_std xs"
proof -
  have "0 \<le> sum_list (map (\<lambda>x. (x - mean xs)\<^sup>2) xs)"
    by (rule sum_list_nonneg) auto
  moreover have "0 < real (length xs) - 1" using assms by simp
  ultimately show ?thesis by (simp add: series_std_def)
qed

lemma series_std_square:
  assumes "2 \<le> length xs"
  shows "(series_std xs)\<^sup>2 * (real (length xs) - 1) = sum_list (map (\<lambda>x. (x - mean xs)\<^sup>2) xs)"
proof -
  have s: "0 \<le> sum_list (map (\<lambda>x. (x - mean xs)\<^sup>2) xs)"
    by (rule sum_list_nonneg) auto
  have p: "0 < real (length xs) - 1" using assms by simp
  then have "0 \<le> sum_list (map (\<lambda>x. (x - mean xs)\<^sup>2) xs) / (real (length xs) - 1)"
    using s by simp
  then show ?thesis using p by (simp add: series_std_def)
qed

text \<open>
  C9. For the score history of a customer (one row per week), the stability estimator
  takes the last 4 observations in week order and their sample standard deviation
  (zero when there are fewer than 2 observations), and labels a deviation below 0.05
  "High stability", one from 0.05 to 0.12 "Medium stability" and one above 0.12
  "Low stability"; a history of fewer than 2 observations is labelled "High stability".
\<close>

theorem stability_thresholds:
  assumes "distinct (map week cust_df)"
  shows "length (last4 cust_df) = min 4 (length cust_df) \<and>
         last4 cust_df = map risk_score (df_tail 4 (sort_values_week cust_df)) \<and>
         risk_std cust_df = (if length cust_df < 2 then 0 else series_std (last4 cust_df)) \<and>
         (2 \<le> length cust_df \<longrightarrow>
            0 \<le> risk_std cust_df \<and>
            (risk_std cust_df)\<^sup>2 * (real (length (last4 cust_df)) - 1) =
              sum_list (map (\<lambda>x. (x - mean (last4 cust_df))\<^sup>2) (last4 cust_df))) \<and>
         (risk_std cust_df < 0.05 \<longrightarrow> stability_label cust_df = ''High stability'') \<and>
         (0.05 \<le> risk_std cust_df \<and> risk_std cust_df \<le> 0.12 \<longrightarrow>
            stability_label cust_df = ''Medium stability'') \<and>
         (0.12 < risk_std cust_df \<longrightarrow> stability_label cust_df = ''Low stability'') \<and>
         (length cust_df < 2 \<longrightarrow> stability_label cust_df = ''High stability'')"
proof -
  have l: "length (last4 cust_df) = min 4 (length cust_df)" by (rule last4_length)
  have d: "last4 cust_df = map risk_score (df_tail 4 (sort_values_week cust_df))"
    by (rule last4_def)
  have r: "risk_std cust_df = (if length cust_df < 2 then 0 else series_std (last4 cust_df))"
    by (simp add: risk_std_def l)
  have q: "2 \<le> length cust_df \<longrightarrow>
            0 \<le> risk_std cust_df \<and>
            (risk_std cust_df)\<^sup>2 * (real (length (last4 cust_df)) - 1) =
              sum_list (map (\<lambda>x. (x - mean (last4 cust_df))\<^sup>2) (last4 cust_df))"
  proof
    assume a: "2 \<le> length cust_df"
    then have b: "2 \<le> length (last4 cust_df)" by (simp add: l)
    have "risk_std cust_df = series_std (last4 cust_df)" using a by (simp add: r)
    then show "0 \<le> risk_std cust_df \<and>
            (risk_std cust_df)\<^sup>2 * (real (length (last4 cust_df)) - 1) =
              sum_list (map (\<lambda>x. (x - mean (last4 cust_df))\<^sup>2) (last4 cust_df))"
      using series_std_nonneg [OF b] series_std_square [OF b] by simp
  qed
  have t: "(risk_std cust_df < 0.05 \<longrightarrow> stability_label cust_df = ''High stability'') \<and>
         (0.05 \<le> risk_std cust_df \<and> risk_std cust_df \<le> 0.12 \<longrightarrow>
            stability_label cust_df = ''Medium stability'') \<and>
         (0.12 < risk_std cust_df \<longrightarrow> stability_label cust_df = ''Low stability'')"
    by (simp add: stability_label_def)
  have s: "length cust_df < 2 \<longrightarrow> stability_label cust_df = ''High stability''"
    by (simp add: stability_label_def r)
  show ?thesis by (rule conjI [OF l conjI [OF d conjI [OF r conjI [OF q]]]]) (use t s in blast)
qed

lemma volatile_last4: "last4 volatile_history = [0.2, 0.2, 0.4, 0.4]"
  by (simp add: last4_def volatile_history_def sort_values_week_def df_tail_def obs_def)

lemma volatile_std: "series_std [0.2, 0.2, 0.4, 0.4] = sqrt (1 / 75)"
proof -
  have m: "mean [0.2, 0.2, 0.4, 0.4] = 0.3" by (simp add: mean_def)
  have "sum_list (map (\<lambda>x. (x - 0.3)\<^sup>2) [0.2, 0.2, 0.4, 0.4 :: real]) / (real (length [0.2, 0.2, 0.4, 0.4 :: real]) - 1)
          = 1 / 75"
    by (simp add: power2_eq_square)
  then show ?thesis unfolding series_std_def m by simp
qed

theorem stability_thresholds_witness:
  "distinct (map week volatile_history) \<and>
   last4 volatile_history = [0.2, 0.2, 0.4, 0.4] \<and>
   (risk_std volatile_history)\<^sup>2 = 1 / 75 \<and>
   stability_label volatile_history = ''Medium stability'' \<and>
   stability_label [obs 1 0.9] = ''High stability''"
proof -
  have d: "distinct (map week volatile_history)"
    by (simp add: volatile_history_def obs_def)
  have d1: "distinct (map week [obs 1 0.9])" by simp
  have r: "risk_std volatile_history = sqrt (1 / 75)"
    unfolding risk_std_def volatile_last4 volatile_std by simp
  have lo: "0.05 \<le> sqrt (1 / 75 :: real)"
    by (rule real_le_rsqrt) (simp add: power2_eq_square)
  have hi: "sqrt (1 / 75 :: real) \<le> 0.12"
    by (rule real_le_lsqrt) (simp_all add: power2_eq_square)
  have m: "stability_label volatile_history = ''Medium stability''"
    using stability_thresholds [OF d] r lo hi by simp
  have h: "stability_label [obs 1 0.9] = ''High stability''"
    using stability_thresholds [OF d1] by simp
  have "(risk_std volatile_history)\<^sup>2 = 1 / 75" by (simp add: r)
  with d m h volatile_last4 show ?thesis by simp
qed


subsection \<open>Trend classifier\<close>

lemma sq_dev_expand:
  "sum_list (map (\<lambda>x. (x - t)\<^sup>2) xs) =
     sum_list (map (\<lambda>x. x * x) xs) - 2 * t * sum_list xs + real (length xs) * t\<^sup>2"
  by (induction xs) (simp_all add: power2_eq_square algebra_simps)

lemma normal_det_eq:
  assumes "xs \<noteq> []"
  shows "real (length xs) * sum_list (map (\<lambda>x. x * x) xs) - sum_list xs * sum_list xs =
         real (length xs) * sum_list (map (\<lambda>x. (x - sum_list xs / real (length xs))\<^sup>2) xs)"
proof -
  have n: "real (length xs) \<noteq> 0" using assms by simp
  show ?thesis
    unfolding sq_dev_expand using n by (simp add: power2_eq_square field_simps)
qed

lemma normal_det_nonneg:
  "0 \<le> real (length xs) * sum_list (map (\<lambda>x. x * x) xs) - sum_list xs * sum_list xs"
proof (cases "xs = []")
  case True
  then show ?thesis by simp
next
  case False
  have "0 \<le> sum_list (map (\<lambda>x. (x - sum_list xs / real (length xs))\<^sup>2) xs)"
    by (rule sum_list_nonneg) auto
  then show ?thesis unfolding normal_det_eq [OF False] by simp
qed

lemma normal_det_zero_all_equal:
  assumes "real (length xs) * sum_list (map (\<lambda>x. x * x) xs) - sum_list xs * sum_list xs = 0"
    and "x \<in> set xs"
  shows "x = sum_list xs / real (length xs)"
proof -
  have ne: "xs \<noteq> []" using assms(2) by auto
  then have n: "real (length xs) \<noteq> 0" by simp
  have "real (length xs) * sum_list (map (\<lambda>x. (x - sum_list xs / real (length xs))\<^sup>2) xs) = 0"
    using assms(1) normal_det_eq [OF ne] by simp
  then have z: "sum_list (map (\<lambda>x. (x - sum_list xs / real (length xs))\<^sup>2) xs) = 0"
    using n by simp
  have "\<forall>v \<in> set (map (\<lambda>x. (x - sum_list xs / real (length xs))\<^sup>2) xs). v = 0"
    using z by (subst (asm) sum_list_nonneg_eq_0_iff) auto
  then have "(x - sum_list xs / real (length xs))\<^sup>2 = 0"
    using assms(2) by auto
  then show ?thesis by simp
qed

lemma normal_det_pos:
  assumes "distinct xs" and "2 \<le> length xs"
  shows "0 < real (length xs) * sum_list (map (\<lambda>x. x * x) xs) - sum_list xs * sum_list xs"
proof (rule ccontr)
  assume "\<not> ?thesis"
  then have z: "real (length xs) * sum_list (map (\<lambda>x. x * x) xs) - sum_list xs * sum_list xs = 0"
    using normal_det_nonneg [of xs] by simp
  have i0: "0 < length xs" and i1: "1 < length xs" using assms(2) by linarith+
  have "xs ! 0 = sum_list xs / real (length xs)"
    by (rule normal_det_zero_all_equal [OF z]) (rule nth_mem [OF i0])
  moreover have "xs ! 1 = sum_list xs / real (length xs)"
    by (rule normal_det_zero_all_equal [OF z]) (rule nth_mem [OF i1])
  ultimately have "xs ! 0 = xs ! 1" by simp
  then show False using nth_eq_iff_index_eq [OF assms(1) i0 i1] by simp
qed

lemma sq_error_expand:
  assumes "length xs = length ys"
  shows "sq_error xs ys a b =
     sum_list (map (\<lambda>y. y * y) ys)
       - 2 * a * sum_list (map (\<lambda>(x, y). x * y) (zip xs ys))
       - 2 * b * sum_list ys
       + a\<^sup>2 * sum_list (map (\<lambda>x. x * x) xs)
       + 2 * a * b * sum_list xs
       + real (length xs) * b\<^sup>2"
  using assms unfolding sq_error_def
  by (induction xs ys rule: list_induct2) (simp_all add: power2_eq_square algebra_simps)


lemma quad_form_nonneg:
  fixes n sx sxx A B :: real
  assumes "0 < n" and "0 \<le> n * sxx - sx * sx"
  shows "0 \<le> sxx * A\<^sup>2 + 2 * sx * A * B + n * B\<^sup>2"
proof -
  have "n * (sxx * A\<^sup>2 + 2 * sx * A * B + n * B\<^sup>2) = (n * B + sx * A)\<^sup>2 + (n * sxx - sx * sx) * A\<^sup>2"
    by (simp add: power2_eq_square algebra_simps)
  moreover have "0 \<le> (n * B + sx * A)\<^sup>2 + (n * sxx - sx * sx) * A\<^sup>2"
    using assms(2) by simp
  ultimately have "0 \<le> n * (sxx * A\<^sup>2 + 2 * sx * A * B + n * B\<^sup>2)" by simp
  then show ?thesis using assms(1) by (simp add: zero_le_mult_iff)
qed

lemma residual_gap:
  fixes n sx sy sxx sxy syy a b a0 b0 :: real
  assumes "sxy = a0 * sxx + b0 * sx" and "sy = a0 * sx + n * b0"
  shows "(syy - 2 * a * sxy - 2 * b * sy + a\<^sup>2 * sxx + 2 * a * b * sx + n * b\<^sup>2)
         - (syy - 2 * a0 * sxy - 2 * b0 * sy + a0\<^sup>2 * sxx + 2 * a0 * b0 * sx + n * b0\<^sup>2)
         = sxx * (a - a0)\<^sup>2 + 2 * sx * (a - a0) * (b - b0) + n * (b - b0)\<^sup>2"
  unfolding assms by (simp add: power2_eq_square algebra_simps)

lemma polyfit_slope_least_squares:
  assumes len: "length xs = length ys"
    and fit: "polyfit_slope xs ys = Some slope"
  shows "sq_error xs ys slope ((sum_list ys - slope * sum_list xs) / real (length xs))
           \<le> sq_error xs ys a b"
proof -
  define n where "n = real (length xs)"
  define sx where "sx = sum_list xs"
  define sy where "sy = sum_list ys"
  define sxx where "sxx = sum_list (map (\<lambda>x. x * x) xs)"
  define sxy where "sxy = sum_list (map (\<lambda>(x, y). x * y) (zip xs ys))"
  define syy where "syy = sum_list (map (\<lambda>y. y * y) ys)"
  define d where "d = n * sxx - sx * sx"
  define b0 where "b0 = (sy - slope * sx) / n"
  have dn: "d \<noteq> 0" and sl: "slope = (n * sxy - sx * sy) / d"
    using fit unfolding polyfit_slope_def Let_def n_def sx_def sy_def sxx_def sxy_def d_def
    by (auto split: if_splits)
  have d0: "0 \<le> d"
    unfolding d_def n_def sx_def sxx_def by (rule normal_det_nonneg)
  have npos: "0 < n"
  proof (cases "xs = []")
    case True
    then have "d = 0" by (simp add: d_def n_def sx_def sxx_def)
    with dn show ?thesis by simp
  next
    case False
    then show ?thesis by (simp add: n_def)
  qed
  have e2: "sy = slope * sx + n * b0"
    using npos by (simp add: b0_def)
  have nb: "n * b0 = sy - slope * sx"
    using npos by (simp add: b0_def)
  have sd: "slope * d = n * sxy - sx * sy" using dn by (simp add: sl)
  have "n * (slope * sxx + b0 * sx) = slope * (n * sxx) + (n * b0) * sx"
    by (simp add: algebra_simps)
  also have "\<dots> = slope * (n * sxx) + (sy - slope * sx) * sx"
    by (simp only: nb)
  also have "\<dots> = slope * d + sx * sy"
    by (simp add: d_def algebra_simps)
  also have "\<dots> = n * sxy"
    by (simp add: sd)
  finally have "n * (slope * sxx + b0 * sx) = n * sxy" .
  then have e1: "sxy = slope * sxx + b0 * sx"
    using npos by simp
  have ex: "sq_error xs ys u v =
      syy - 2 * u * sxy - 2 * v * sy + u\<^sup>2 * sxx + 2 * u * v * sx + n * v\<^sup>2" for u v
    unfolding n_def sx_def sy_def sxx_def sxy_def syy_def by (rule sq_error_expand [OF len])
  have "sq_error xs ys a b - sq_error xs ys slope b0 =
      sxx * (a - slope)\<^sup>2 + 2 * sx * (a - slope) * (b - b0) + n * (b - b0)\<^sup>2"
    unfolding ex by (rule residual_gap [OF e1 e2])
  moreover have "0 \<le> sxx * (a - slope)\<^sup>2 + 2 * sx * (a - slope) * (b - b0) + n * (b - b0)\<^sup>2"
    using npos d0 unfolding d_def by (rule quad_form_nonneg)
  ultimately have "sq_error xs ys slope b0 \<le> sq_error xs ys a b" by simp
  then show ?thesis by (simp add: b0_def sy_def sx_def n_def)
qed


lemma recent_length: "length (recent grp) = min 3 (length grp)"
  by (simp add: recent_def df_tail_length sort_values_week_def)

lemma recent_sorted: "sorted (map week (recent grp))"
proof -
  have "sorted (map week (sort_key week grp))" by (rule sorted_sort_key)
  then have "sorted (drop (length grp - 3) (map week (sort_key week grp)))"
    by (rule sorted_wrt_drop)
  then show ?thesis
    by (simp add: recent_def df_tail_def sort_values_week_def drop_map)
qed

lemma recent_subset: "set (recent grp) \<subseteq> set grp"
  using set_drop_subset [of "length grp - 3" "sort_key week grp"]
  by (simp add: recent_def df_tail_def sort_values_week_def)

lemma sorted_weeks_distinct:
  assumes "distinct (map week grp)"
  shows "distinct (map week (sort_key week grp))"
  using assms by (simp add: distinct_map)

lemma recent_distinct:
  assumes "distinct (map week grp)"
  shows "distinct (map (\<lambda>r. real_of_int (week r)) (recent grp))"
proof -
  have "distinct (drop (length grp - 3) (map week (sort_key week grp)))"
    using sorted_weeks_distinct [OF assms] by (rule distinct_drop)
  then have "distinct (map week (recent grp))"
    by (simp add: recent_def df_tail_def sort_values_week_def drop_map)
  then have "distinct (map real_of_int (map week (recent grp)))"
    by (simp add: distinct_map inj_on_def)
  then show ?thesis by (simp add: comp_def)
qed

lemma recent_are_latest:
  assumes "distinct (map week grp)"
    and "r \<in> set grp" and "r \<notin> set (recent grp)" and "q \<in> set (recent grp)"
  shows "week r < week q"
proof -
  let ?s = "sort_key week grp"
  let ?k = "length grp - 3"
  have rec: "recent grp = drop ?k ?s"
    by (simp add: recent_def df_tail_def sort_values_week_def)
  have q: "q \<in> set (drop ?k ?s)" using assms(4) unfolding rec .
  have nr: "r \<notin> set (drop ?k ?s)" using assms(3) unfolding rec .
  have u: "set ?s = set (take ?k ?s) \<union> set (drop ?k ?s)"
    by (metis append_take_drop_id set_append)
  have "r \<in> set ?s" using assms(2) by (simp only: set_sort)
  then have r: "r \<in> set (take ?k ?s)" using u nr by blast
  have "sorted_wrt (\<lambda>a b. week a \<le> week b) ?s"
    using sorted_sort_key [of week grp] by (simp only: sorted_map)
  then have "sorted_wrt (\<lambda>a b. week a \<le> week b) (take ?k ?s @ drop ?k ?s)"
    by (simp only: append_take_drop_id)
  then have "\<forall>x \<in> set (take ?k ?s). \<forall>y \<in> set (drop ?k ?s). week x \<le> week y"
    unfolding sorted_wrt_append by (elim conjE)
  then have le: "week r \<le> week q" using r q by blast
  have "q \<in> set grp"
    using q set_drop_subset [of ?k ?s] by (auto simp only: set_sort)
  moreover have "inj_on week (set grp)"
    using assms(1) by (simp only: distinct_map)
  moreover have "r \<noteq> q" using q nr by blast
  ultimately have "week r \<noteq> week q"
    using assms(2) by (auto dest: inj_onD)
  with le show ?thesis by simp
qed

text \<open>
  C7 as the code has it. For the score history of a customer with one row per week and
  at least 2 observations, the trend classifier takes the last 3 observations in week
  order (both when there are only 2), fits the ordinary least-squares line of score
  against week, and labels a slope above 0.015 Rising, a slope below -0.015 Falling and
  any other slope Stable. The code has no guard for a short history: with 2 observations
  the label follows the slope of the line through the two points.
\<close>

theorem trend_label_least_squares:
  assumes "distinct (map week grp)" and "2 \<le> length grp"
  shows "\<exists>slope.
     length (recent grp) = min 3 (length grp) \<and>
     sorted (map week (recent grp)) \<and>
     set (recent grp) \<subseteq> set grp \<and>
     (\<forall>r \<in> set grp. r \<in> set (recent grp) \<or>
        (\<forall>q \<in> set (recent grp). week r < week q)) \<and>
     polyfit_slope (map (\<lambda>r. real_of_int (week r)) (recent grp))
       (map risk_score (recent grp)) = Some slope \<and>
     (\<forall>a b.
        sq_error (map (\<lambda>r. real_of_int (week r)) (recent grp)) (map risk_score (recent grp))
          slope
          ((sum_list (map risk_score (recent grp))
              - slope * sum_list (map (\<lambda>r. real_of_int (week r)) (recent grp)))
            / real (length (recent grp)))
        \<le> sq_error (map (\<lambda>r. real_of_int (week r)) (recent grp))
            (map risk_score (recent grp)) a b) \<and>
     risk_trend_label grp =
       Some (if slope > 0.015 then ''Rising''
             else if slope < - 0.015 then ''Falling''
             else ''Stable'')"
proof -
  let ?xs = "map (\<lambda>r. real_of_int (week r)) (recent grp)"
  let ?ys = "map risk_score (recent grp)"
  have l: "length (recent grp) = min 3 (length grp)" by (rule recent_length)
  then have "2 \<le> length ?xs" using assms(2) by simp
  then have "0 < real (length ?xs) * sum_list (map (\<lambda>x. x * x) ?xs) - sum_list ?xs * sum_list ?xs"
    using recent_distinct [OF assms(1)] normal_det_pos by blast
  then obtain slope where fit: "polyfit_slope ?xs ?ys = Some slope"
    by (simp add: polyfit_slope_def Let_def)
  have ls: "\<forall>a b. sq_error ?xs ?ys slope
          ((sum_list ?ys - slope * sum_list ?xs) / real (length (recent grp)))
        \<le> sq_error ?xs ?ys a b"
    using polyfit_slope_least_squares [of ?xs ?ys slope] fit by simp
  have lab: "risk_trend_label grp =
       Some (if slope > 0.015 then ''Rising''
             else if slope < - 0.015 then ''Falling''
             else ''Stable'')"
    by (simp add: risk_trend_label_def fit)
  have latest: "\<forall>r \<in> set grp. r \<in> set (recent grp) \<or>
        (\<forall>q \<in> set (recent grp). week r < week q)"
    using recent_are_latest [OF assms(1)] by blast
  show ?thesis
    by (rule exI [of _ slope])
      (rule conjI [OF l conjI [OF recent_sorted conjI [OF recent_subset conjI [OF latest conjI [OF fit conjI [OF ls lab]]]]]])
qed

lemma two_week_recent: "recent two_week_history = [obs 1 0.1, obs 2 0.5]"
  by (simp add: recent_def df_tail_def sort_values_week_def two_week_history_def obs_def)

lemma two_week_slope:
  "polyfit_slope (map (\<lambda>r. real_of_int (week r)) [obs 1 0.1, obs 2 0.5])
     (map risk_score [obs 1 0.1, obs 2 0.5]) = Some 0.4"
  by (simp add: polyfit_slope_def obs_def)

text \<open>
  C7. The claim: every history with fewer than 3 weeks of observations is labelled
  Stable. A history of two weeks with scores 0.1 and 0.5 is labelled Rising.
\<close>

theorem two_week_history_rising_counterexample:
  "length two_week_history < 3 \<and> risk_trend_label two_week_history = Some ''Rising''"
  unfolding risk_trend_label_def two_week_recent two_week_slope
  by (simp add: two_week_history_def)

lemma rising_recent: "recent rising_history = [obs 2 0.2, obs 3 0.3, obs 4 0.5]"
  by (simp add: recent_def df_tail_def sort_values_week_def rising_history_def obs_def)

lemma rising_slope:
  "polyfit_slope (map (\<lambda>r. real_of_int (week r)) [obs 2 0.2, obs 3 0.3, obs 4 0.5])
     (map risk_score [obs 2 0.2, obs 3 0.3, obs 4 0.5]) = Some 0.15"
  by (simp add: polyfit_slope_def obs_def)

theorem trend_label_least_squares_witness:
  "distinct (map week rising_history) \<and> 2 \<le> length rising_history \<and>
   recent rising_history = [obs 2 0.2, obs 3 0.3, obs 4 0.5] \<and>
   risk_trend_label rising_history = Some ''Rising''"
proof -
  have d: "distinct (map week rising_history)"
    by (simp add: rising_history_def obs_def)
  have n: "2 \<le> length rising_history"
    by (simp add: rising_history_def)
  from trend_label_least_squares [OF d n] obtain slope where
    f: "polyfit_slope (map (\<lambda>r. real_of_int (week r)) (recent rising_history))
          (map risk_score (recent rising_history)) = Some slope"
    and t: "risk_trend_label rising_history =
       Some (if slope > 0.015 then ''Rising''
             else if slope < - 0.015 then ''Falling''
             else ''Stable'')"
    by blast
  have "slope = 0.15"
    using f unfolding rising_recent rising_slope by simp
  then have "risk_trend_label rising_history = Some ''Rising''"
    using t by simp
  with d n rising_recent show ?thesis by simp
qed

end
